theory Spec2Isabelle
  imports Complex_Main "HOL-Library.Word" "HOL-Library.Log_Nat"
begin

section \<open>The DS18B20 polling sketch (src/main.cpp)\<close>

text \<open>
  The sketch is one \<^verbatim>\<open>setup()\<close> and one \<^verbatim>\<open>loop()\<close> over global variables. The
  globals become a record, every call of \<^verbatim>\<open>loop()\<close> becomes one application of
  \<open>loop\<close> to the record, and every call into the display or the sensor library is
  recorded as an element of the returned list, in program order.

  Modelling decisions:
  \<^item> \<^verbatim>\<open>unsigned long\<close> is 32 bits wide on the ESP32-S3, so \<^verbatim>\<open>previousMillis\<close> and
    \<^verbatim>\<open>millis()\<close> are \<open>32 word\<close> and \<^verbatim>\<open>currentMillis - previousMillis\<close> wraps. The
    \<^verbatim>\<open>int\<close> intervals are converted to \<^verbatim>\<open>unsigned long\<close> by the comparison.
  \<^item> A \<^verbatim>\<open>float\<close> is read as the real number it denotes. The rounding of the float
    subtraction in the change test and of the literal \<^verbatim>\<open>0.1\<close> is not modelled; on the
    values the driver returns (multiples of 1/128) the subtraction is exact. Where the
    rounding matters, in the Fahrenheit conversion, \<open>float32\<close> rounds a real number to
    single precision.
  \<^item> The DallasTemperature library is not part of the sketch:
    \<^verbatim>\<open>DallasTemperature::toFahrenheit\<close> and the macro \<^verbatim>\<open>DEVICE_DISCONNECTED_C\<close> are
    parameters, the value \<^verbatim>\<open>sensors.getTempCByIndex(0)\<close> would return is an input of
    the tick, as is the value of \<^verbatim>\<open>millis()\<close>.
  \<^item> \<^verbatim>\<open>String(x) + suffix\<close> is kept symbolic in the \<open>PrintFloat\<close> command.
\<close>

subsection \<open>Data\<close>

datatype State = READ_SENSOR | WAIT | UPDATE_DISPLAY

datatype colour = TFT_BLACK | TFT_WHITE

text \<open>Calls into the TFT\_eSPI, DallasTemperature and Arduino libraries.\<close>

datatype io =
    TftInit
  | SetRotation int
  | FillScreen colour
  | SetTextFont int
  | SetTextColor colour colour
  | SetCursor int int
  | Println string
  | PrintFloat real string
  | Delay nat
  | SensorsBegin
  | SetResolution int
  | RequestTemperatures
  | GetTempCByIndex int

record globals =
  currentState :: State
  previousMillis :: "32 word"
  temperatureC :: real
  temperatureF :: real
  previousTemperatureC :: real
  valueChanged :: bool
  sensorConnected :: bool
  firstRun :: bool

record dallas =
  toFahrenheit :: "real \<Rightarrow> real"
  DEVICE_DISCONNECTED_C :: real

type_synonym tick = "32 word \<times> real"

definition sensorDelayInterval :: int where
  "sensorDelayInterval = 750"

definition sensorReadInterval :: int where
  "sensorReadInterval = 2000"

definition CELSIUS_Y :: int where
  "CELSIUS_Y = 85"

definition FAHRENHEIT_Y :: int where
  "FAHRENHEIT_Y = 133"

definition ERROR_Y :: int where
  "ERROR_Y = 85"

text \<open>The initialisers of the global variables.\<close>

definition initial :: globals where
  "initial =
     \<lparr>currentState = READ_SENSOR, previousMillis = 0, temperatureC = 0, temperatureF = 0,
      previousTemperatureC = 0, valueChanged = False, sensorConnected = True,
      firstRun = True\<rparr>"

subsection \<open>Helper functions\<close>

definition drawStaticScreen :: "globals \<Rightarrow> io list" where
  "drawStaticScreen s =
     [FillScreen TFT_BLACK, SetCursor 0 0, SetTextColor TFT_WHITE TFT_BLACK,
      Println ''---------------------------'',
      Println '' DS18B20 Sensor Module'',
      Println ''---------------------------'']
     @ (if sensorConnected s
        then [Println (CHR 0x0A # ''Temp in Celcius:''),
              Println (CHR 0x0A # CHR 0x0A # ''Temp in Fahrenheit:'')]
        else [])"

definition updateTemperatureValues :: "globals \<Rightarrow> io list" where
  "updateTemperatureValues s =
     (if sensorConnected s
      then [SetTextColor TFT_WHITE TFT_BLACK,
            SetCursor 0 CELSIUS_Y, PrintFloat (temperatureC s) '' C    '',
            SetCursor 0 FAHRENHEIT_Y, PrintFloat (temperatureF s) '' F    '']
      else [])"

definition showSensorError :: "io list" where
  "showSensorError =
     [SetTextColor TFT_WHITE TFT_BLACK, SetCursor 0 ERROR_Y,
      Println (CHR 0x0A # ''!! Sensor Not Connected !!'')]"

subsection \<open>Main functions\<close>

definition setup' :: "globals \<Rightarrow> globals \<times> io list" where
  "setup' s =
     (s\<lparr>firstRun := False\<rparr>,
      [TftInit, SetRotation 0, FillScreen TFT_BLACK, SetTextFont 2,
       SetTextColor TFT_WHITE TFT_BLACK, Println (''Initialising...'' @ [CHR 0x0A]),
       Delay 1000, SensorsBegin, SetResolution 12]
      @ drawStaticScreen s)"

text \<open>
  One call of \<^verbatim>\<open>loop()\<close>. The \<^verbatim>\<open>default\<close> branch of the switch is not a case of the
  model: the enumeration has three values and nothing else is ever assigned.
\<close>

definition loop :: "dallas \<Rightarrow> tick \<Rightarrow> globals \<Rightarrow> globals \<times> io list" where
  "loop lib inp s =
     (case inp of (currentMillis, reading) \<Rightarrow>
        (case currentState s of
           READ_SENSOR \<Rightarrow>
             (s\<lparr>currentState := WAIT, previousMillis := currentMillis\<rparr>,
              [RequestTemperatures])
         | WAIT \<Rightarrow>
             if word_of_int sensorDelayInterval \<le> currentMillis - previousMillis s
             then
               let s1 = s\<lparr>temperatureC := reading,
                          temperatureF := toFahrenheit lib reading\<rparr>;
                   currentConnectionState =
                     (temperatureC s1 \<noteq> DEVICE_DISCONNECTED_C lib);
                   (s2, draws) =
                     (if currentConnectionState \<noteq> sensorConnected s1
                      then
                        let s' = s1\<lparr>sensorConnected := currentConnectionState\<rparr>
                        in (s', drawStaticScreen s'
                                @ (if \<not> sensorConnected s' then showSensorError else []))
                      else (s1, []));
                   s3 =
                     (if sensorConnected s2
                         \<and> \<bar>temperatureC s2 - previousTemperatureC s2\<bar> \<ge> 0.1
                      then s2\<lparr>valueChanged := True,
                              previousTemperatureC := temperatureC s2\<rparr>
                      else s2)
               in (s3\<lparr>currentState := UPDATE_DISPLAY\<rparr>, GetTempCByIndex 0 # draws)
             else (s, [])
         | UPDATE_DISPLAY \<Rightarrow>
             let (s1, draws) =
                   (if valueChanged s \<and> sensorConnected s
                    then (s\<lparr>valueChanged := False\<rparr>, updateTemperatureValues s)
                    else (s, []));
                 s2 =
                   (if word_of_int sensorReadInterval \<le> currentMillis - previousMillis s1
                    then s1\<lparr>currentState := READ_SENSOR\<rparr>
                    else s1)
             in (s2, draws)))"

subsection \<open>Executions\<close>

text \<open>The state after \<^verbatim>\<open>setup()\<close>, from which the Arduino core calls \<^verbatim>\<open>loop()\<close> forever.\<close>

definition boot :: globals where
  "boot = fst (setup' initial)"

text \<open>A finite prefix of the run: one \<open>loop\<close> per tick, the library calls concatenated.\<close>

fun run :: "dallas \<Rightarrow> tick list \<Rightarrow> globals \<Rightarrow> globals \<times> io list" where
  "run lib [] s = (s, [])"
| "run lib (i # is) s =
     (case loop lib i s of (s1, ev1) \<Rightarrow>
        (case run lib is s1 of (s2, ev2) \<Rightarrow> (s2, ev1 @ ev2)))"

text \<open>The phase before the first tick and after every tick.\<close>

fun phases :: "dallas \<Rightarrow> tick list \<Rightarrow> globals \<Rightarrow> State list" where
  "phases lib [] s = [currentState s]"
| "phases lib (i # is) s = currentState s # phases lib is (fst (loop lib i s))"

text \<open>
  The order of the phases: READ\_SENSOR is left for WAIT at once, WAIT and
  UPDATE\_DISPLAY are kept or left for the next phase of the cycle.
\<close>

fun phase_step :: "State \<Rightarrow> State \<Rightarrow> bool" where
  "phase_step READ_SENSOR q = (q = WAIT)"
| "phase_step WAIT q = (q = WAIT \<or> q = UPDATE_DISPLAY)"
| "phase_step UPDATE_DISPLAY q = (q = UPDATE_DISPLAY \<or> q = READ_SENSOR)"

text \<open>
  \<^verbatim>\<open>millis()\<close>: the milliseconds since boot, a natural number that only grows,
  truncated to an \<^verbatim>\<open>unsigned long\<close>.
\<close>

definition millis :: "nat \<Rightarrow> 32 word" where
  "millis t = word_of_nat t"

text \<open>The commands that paint a value row: \<^verbatim>\<open>tft.print(String(x) + suffix)\<close>.\<close>

fun value_row :: "io \<Rightarrow> bool" where
  "value_row (PrintFloat x suffix) = True"
| "value_row _ = False"

text \<open>
  What holds of the two flags in every state a run reaches from \<open>boot\<close>: a pending value
  change is only ever left to the UPDATE\_DISPLAY phase, with the sensor connected.
\<close>

definition pending_ok :: "globals \<Rightarrow> bool" where
  "pending_ok s \<longleftrightarrow>
     (\<not> valueChanged s \<or> (sensorConnected s \<and> currentState s = UPDATE_DISPLAY))"

subsection \<open>Single precision\<close>

text \<open>
  Rounding to the nearest integer, a tie going to the even one.
\<close>

definition round_even :: "real \<Rightarrow> int" where
  "round_even y =
     (let f = \<lfloor>y\<rfloor>; d = y - of_int f
      in if d < 1 / 2 then f
         else if 1 / 2 < d then f + 1
         else if even f then f else f + 1)"

text \<open>
  The exponent of the unit in the last place of a single-precision number next to \<open>x\<close>:
  24 significant bits, and \<open>2 powi (- 149)\<close> as the smallest step, which covers the
  subnormal numbers.
\<close>

definition ulp_exponent :: "real \<Rightarrow> int" where
  "ulp_exponent x = max (bitlen \<lfloor>\<bar>x\<bar> * 2 ^ 149\<rfloor> - 24) 0 - 149"

text \<open>
  The value of a real number as a \<^verbatim>\<open>float\<close>: IEEE 754 binary32, rounded to nearest,
  ties to even. Magnitudes from \<open>2 ^ 128\<close> on, which the hardware turns into
  infinities, are outside the model.
\<close>

definition float32 :: "real \<Rightarrow> real" where
  "float32 x = of_int (round_even (x / 2 powi ulp_exponent x)) * 2 powi ulp_exponent x"

text \<open>
  Modelled from the spec: the DallasTemperature library is not among the sources of the
  sketch. The specification calls \<^verbatim>\<open>toFahrenheit\<close> the standard linear conversion
  \<^verbatim>\<open>F = C * 9/5 + 32\<close> on floats; the library evaluates it as
  \<^verbatim>\<open>(celsius * 1.8f) + 32.0f\<close>, the constant, the product and the sum each rounded to
  single precision, and that is what is defined here.
\<close>

definition toFahrenheit32 :: "real \<Rightarrow> real" where
  "toFahrenheit32 celsius = float32 (float32 (celsius * float32 1.8) + 32)"

text \<open>
  The library as the sketch links it: the conversion above, and the value -127 of the
  macro \<^verbatim>\<open>DEVICE_DISCONNECTED_C\<close>.
\<close>

definition ds18b20 :: dallas where
  "ds18b20 = \<lparr>toFahrenheit = toFahrenheit32, DEVICE_DISCONNECTED_C = - 127\<rparr>"

section \<open>Single ticks\<close>

text \<open>What one tick does in each phase, as equations.\<close>

lemma loop_READ_SENSOR:
  "currentState s = READ_SENSOR \<Longrightarrow>
   loop lib (now, reading) s =
     (s\<lparr>currentState := WAIT, previousMillis := now\<rparr>, [RequestTemperatures])"
  by (simp add: loop_def)

lemma loop_WAIT_early:
  "currentState s = WAIT \<Longrightarrow> \<not> 750 \<le> now - previousMillis s \<Longrightarrow>
   loop lib (now, reading) s = (s, [])"
  by (simp add: loop_def sensorDelayInterval_def)

lemma loop_WAIT_due:
  assumes "currentState s = WAIT" and "750 \<le> now - previousMillis s"
  shows "loop lib (now, reading) s =
    (s\<lparr>currentState := UPDATE_DISPLAY,
       temperatureC := reading,
       temperatureF := toFahrenheit lib reading,
       sensorConnected := (reading \<noteq> DEVICE_DISCONNECTED_C lib),
       valueChanged :=
         (valueChanged s \<or>
          (reading \<noteq> DEVICE_DISCONNECTED_C lib \<and> 0.1 \<le> \<bar>reading - previousTemperatureC s\<bar>)),
       previousTemperatureC :=
         (if reading \<noteq> DEVICE_DISCONNECTED_C lib \<and> 0.1 \<le> \<bar>reading - previousTemperatureC s\<bar>
          then reading else previousTemperatureC s)\<rparr>,
     GetTempCByIndex 0 #
       (if (reading \<noteq> DEVICE_DISCONNECTED_C lib) \<noteq> sensorConnected s
        then drawStaticScreen (s\<lparr>sensorConnected := (reading \<noteq> DEVICE_DISCONNECTED_C lib)\<rparr>)
             @ (if reading = DEVICE_DISCONNECTED_C lib then showSensorError else [])
        else []))"
  using assms
  by (auto simp add: loop_def sensorDelayInterval_def Let_def drawStaticScreen_def)

lemma loop_UPDATE_DISPLAY:
  assumes "currentState s = UPDATE_DISPLAY"
  shows "loop lib (now, reading) s =
    (s\<lparr>valueChanged := (valueChanged s \<and> \<not> sensorConnected s),
       currentState :=
         (if 2000 \<le> now - previousMillis s then READ_SENSOR else UPDATE_DISPLAY)\<rparr>,
     if valueChanged s \<and> sensorConnected s then updateTemperatureValues s else [])"
  using assms
  by (auto simp add: loop_def sensorReadInterval_def Let_def)

lemma loop_WAIT_reads:
  "GetTempCByIndex 0 \<in> set (snd (loop lib (now, reading) s)) \<longleftrightarrow>
   currentState s = WAIT \<and> 750 \<le> now - previousMillis s"
  by (cases "currentState s")
     (auto simp add: loop_def Let_def split_beta sensorDelayInterval_def
        updateTemperatureValues_def)

lemma loop_UPDATE_DISPLAY_phase:
  "currentState s = UPDATE_DISPLAY \<Longrightarrow>
   currentState (fst (loop lib (now, reading) s)) =
     (if 2000 \<le> now - previousMillis s then READ_SENSOR else UPDATE_DISPLAY)"
  by (simp add: loop_def Let_def split_beta sensorReadInterval_def)

lemma loop_phase_step:
  "phase_step (currentState s) (currentState (fst (loop lib inp s)))"
  by (cases inp; cases "currentState s")
     (simp_all add: loop_def Let_def split_beta)

lemma boot_simps:
  "boot = \<lparr>currentState = READ_SENSOR, previousMillis = 0, temperatureC = 0, temperatureF = 0,
      previousTemperatureC = 0, valueChanged = False, sensorConnected = True,
      firstRun = False\<rparr>"
  by (simp add: boot_def setup'_def initial_def)

text \<open>The library instance on the values used in the concrete runs below.\<close>

lemma float32_1_8: "float32 1.8 = 7549747 / 4194304"
  by code_simp

lemma ds18b20_sentinel: "DEVICE_DISCONNECTED_C ds18b20 = - 127"
  by (simp add: ds18b20_def)

lemma ds18b20_toFahrenheit: "toFahrenheit ds18b20 = toFahrenheit32"
  by (simp add: ds18b20_def)

lemma toFahrenheit32_21_5: "toFahrenheit32 (43 / 2) = 4633395 / 65536"
  by code_simp

lemma toFahrenheit32_21_5625: "toFahrenheit32 (345 / 16) = 1133 / 16"
  by code_simp

lemma toFahrenheit32_21_625: "toFahrenheit32 (173 / 8) = 4648141 / 65536"
  by code_simp

lemma toFahrenheit32_sentinel: "toFahrenheit32 (- 127) = - (12884377 / 65536)"
  by code_simp

text \<open>The facts that evaluate a run on concrete ticks.\<close>

lemmas concrete =
  loop_def boot_simps ds18b20_sentinel ds18b20_toFahrenheit
  toFahrenheit32_21_5 toFahrenheit32_21_5625 toFahrenheit32_21_625 toFahrenheit32_sentinel
  Let_def sensorDelayInterval_def sensorReadInterval_def
  updateTemperatureValues_def drawStaticScreen_def showSensorError_def
  CELSIUS_Y_def FAHRENHEIT_Y_def ERROR_Y_def

section \<open>Phase order\<close>

text \<open>
  C1. In every run, from any state and for any ticks, two successive phases are related
  by \<open>phase_step\<close>: READ\_SENSOR (REQUEST) is always followed by WAIT
  (AWAIT\_CONVERSION), WAIT by WAIT or UPDATE\_DISPLAY (COMMIT), UPDATE\_DISPLAY by
  UPDATE\_DISPLAY or READ\_SENSOR. A tick therefore makes at most one transition and
  never skips a phase.
\<close>

theorem phase_order:
  "successively phase_step (phases lib ins s)"
proof (induction ins arbitrary: s)
  case Nil
  show ?case by simp
next
  case (Cons i ins)
  have "phase_step (currentState s) (hd (phases lib ins (fst (loop lib i s))))"
    using loop_phase_step [of s lib i] by (cases ins) simp_all
  moreover have "phases lib ins (fst (loop lib i s)) \<noteq> []"
    by (cases ins) simp_all
  ultimately show ?case
    using Cons.IH [of "fst (loop lib i s)"]
    by (cases "phases lib ins (fst (loop lib i s))") simp_all
qed

section \<open>The clock\<close>

lemma millis_elapsed:
  assumes "t0 \<le> t"
  shows "unat (millis t - millis t0) = (t - t0) mod 2 ^ 32"
proof -
  have "millis t - millis t0 = (word_of_nat (t - t0) :: 32 word)"
    using assms by (simp add: millis_def)
  then show ?thesis by (simp add: unat_of_nat)
qed

lemma millis_early:
  assumes "t0 \<le> t" and "t - t0 < 750"
  shows "\<not> 750 \<le> millis t - millis t0"
proof -
  have "unat (millis t - millis t0) = t - t0"
    using assms millis_elapsed [of t0 t] by simp
  then show ?thesis using assms by (simp add: word_le_nat_alt)
qed

lemma millis_due:
  assumes "t0 \<le> t" and "(k :: 32 word) \<le> millis t - millis t0"
  shows "unat k \<le> t - t0"
proof -
  have "unat k \<le> (t - t0) mod 2 ^ 32"
    using assms millis_elapsed [of t0 t] by (simp add: word_le_nat_alt)
  also have "\<dots> \<le> t - t0" by simp
  finally show ?thesis .
qed

lemma run_early:
  assumes "currentState s = WAIT"
      and "\<forall>(now, reading) \<in> set ins. \<not> 750 \<le> now - previousMillis s"
  shows "run lib ins s = (s, [])"
  using assms by (induction ins) (auto simp add: loop_WAIT_early)

section \<open>Conversion wait\<close>

text \<open>
  C2. Let the request be issued by a tick in READ\_SENSOR at time \<open>t0\<close> (milliseconds
  since boot). Every later tick that comes less than 750 ms after \<open>t0\<close> returns the
  state unchanged and calls no library function, however many such ticks there are. A
  tick at a time \<open>t \<ge> t0\<close> that reads the sensor, or that enters UPDATE\_DISPLAY, has
  \<open>750 \<le> t - t0\<close>. The times are the unbounded milliseconds, so this also holds across
  a wrap of the 32-bit counter.
\<close>

theorem conversion_wait:
  assumes "currentState s = READ_SENSOR"
      and "\<forall>(t', r') \<in> set early. t0 \<le> t' \<and> t' - t0 < 750"
      and "t0 \<le> t"
  shows "currentState (fst (loop lib (millis t0, r0) s)) = WAIT \<and>
         run lib (map (\<lambda>(t', r'). (millis t', r')) early) (fst (loop lib (millis t0, r0) s))
           = (fst (loop lib (millis t0, r0) s), []) \<and>
         (t - t0 < 750 \<longrightarrow>
            loop lib (millis t, r) (fst (loop lib (millis t0, r0) s))
              = (fst (loop lib (millis t0, r0) s), [])) \<and>
         (GetTempCByIndex 0 \<in> set (snd (loop lib (millis t, r) (fst (loop lib (millis t0, r0) s))))
            \<longrightarrow> 750 \<le> t - t0) \<and>
         (currentState (fst (loop lib (millis t, r) (fst (loop lib (millis t0, r0) s))))
            = UPDATE_DISPLAY \<longrightarrow> 750 \<le> t - t0)"
proof -
  define s1 where "s1 = fst (loop lib (millis t0, r0) s)"
  have s1: "currentState s1 = WAIT" "previousMillis s1 = millis t0"
    using assms(1) by (simp_all add: s1_def loop_READ_SENSOR)
  have "\<forall>(now, reading) \<in> set (map (\<lambda>(t', r'). (millis t', r')) early).
          \<not> 750 \<le> now - previousMillis s1"
    using assms(2) by (auto simp add: s1(2) millis_early)
  then have quiet: "run lib (map (\<lambda>(t', r'). (millis t', r')) early) s1 = (s1, [])"
    using s1(1) by (rule run_early [rotated])
  have before: "loop lib (millis t, r) s1 = (s1, [])" if "t - t0 < 750"
    using that assms(3) s1 by (simp add: loop_WAIT_early millis_early)
  have due: "750 \<le> t - t0" if "loop lib (millis t, r) s1 \<noteq> (s1, [])"
  proof (rule ccontr)
    assume "\<not> 750 \<le> t - t0"
    then have "t - t0 < 750" by simp
    then show False using before that by simp
  qed
  have read: "750 \<le> t - t0" if "GetTempCByIndex 0 \<in> set (snd (loop lib (millis t, r) s1))"
    using that due by fastforce
  have commit: "750 \<le> t - t0"
    if "currentState (fst (loop lib (millis t, r) s1)) = UPDATE_DISPLAY"
    using that due s1(1) by fastforce
  show ?thesis
    unfolding s1_def [symmetric] using s1(1) quiet before read commit by blast
qed

text \<open>
  A request at 1000 ms: the ticks at 1000, 1400 and 1749 ms do nothing, the tick at
  1750 ms reads the sensor.
\<close>

theorem conversion_wait_witness:
  "currentState (fst (loop ds18b20 (millis 1000, 0) boot)) = WAIT \<and>
   run ds18b20 [(millis 1000, 0), (millis 1400, 0), (millis 1749, 0)]
       (fst (loop ds18b20 (millis 1000, 0) boot))
     = (fst (loop ds18b20 (millis 1000, 0) boot), []) \<and>
   GetTempCByIndex 0 \<in>
     set (snd (loop ds18b20 (millis 1750, 21.5) (fst (loop ds18b20 (millis 1000, 0) boot)))) \<and>
   (750 :: nat) \<le> 1750 - 1000"
  using conversion_wait
    [of boot "[(1000, 0), (1400, 0), (1749, 0)]" 1000 1750 ds18b20 0 "21.5"]
  by (simp add: boot_simps loop_def millis_def sensorDelayInterval_def Let_def)

section \<open>Poll period\<close>

lemma run_previousMillis:
  "READ_SENSOR \<notin> set (phases lib ins s) \<Longrightarrow>
   previousMillis (fst (run lib ins s)) = previousMillis s"
proof (induction ins arbitrary: s)
  case Nil
  show ?case by simp
next
  case (Cons i ins)
  have "currentState s \<noteq> READ_SENSOR"
    and rest: "READ_SENSOR \<notin> set (phases lib ins (fst (loop lib i s)))"
    using Cons.prems by auto
  then have "previousMillis (fst (loop lib i s)) = previousMillis s"
    by (cases i; cases "currentState s")
       (simp_all add: loop_def Let_def split_beta)
  then show ?case
    using Cons.IH [OF rest] by (simp add: split_beta)
qed

text \<open>
  C3. Let a tick in READ\_SENSOR see the clock value \<open>t0\<close>, and let any ticks follow that
  do not bring the machine back to READ\_SENSOR and end in UPDATE\_DISPLAY. Then
  \<open>previousMillis\<close> is still \<open>t0\<close>, whenever the conversion was read in between, and
  the next tick, at clock value \<open>t\<close>, returns to READ\_SENSOR exactly when
  \<open>2000 \<le> t - t0\<close> and stays in UPDATE\_DISPLAY otherwise. The difference is the
  unsigned 32-bit one that the code computes.
\<close>

theorem poll_period:
  assumes "currentState s = READ_SENSOR"
      and "READ_SENSOR \<notin> set (phases lib ins (fst (loop lib (t0, r0) s)))"
      and "currentState (fst (run lib ins (fst (loop lib (t0, r0) s)))) = UPDATE_DISPLAY"
  shows "previousMillis (fst (run lib ins (fst (loop lib (t0, r0) s)))) = t0 \<and>
         currentState (fst (loop lib (t, r) (fst (run lib ins (fst (loop lib (t0, r0) s))))))
           = (if 2000 \<le> t - t0 then READ_SENSOR else UPDATE_DISPLAY)"
proof -
  have "previousMillis (fst (loop lib (t0, r0) s)) = t0"
    using assms(1) by (simp add: loop_READ_SENSOR)
  then have anchor: "previousMillis (fst (run lib ins (fst (loop lib (t0, r0) s)))) = t0"
    using run_previousMillis [OF assms(2)] by simp
  show ?thesis
    using anchor loop_UPDATE_DISPLAY_phase [OF assms(3), of lib t r] by simp
qed

text \<open>
  A request at clock value 1000 and a conversion read at 1750: the tick at 2999 stays in
  UPDATE\_DISPLAY, the tick at 3000 returns to READ\_SENSOR.
\<close>

theorem poll_period_witness:
  "currentState (fst (loop ds18b20 (2999, 0)
      (fst (run ds18b20 [(1750, 21.5), (1751, 0)] (fst (loop ds18b20 (1000, 0) boot))))))
     = UPDATE_DISPLAY \<and>
   currentState (fst (loop ds18b20 (3000, 0)
      (fst (run ds18b20 [(1750, 21.5), (1751, 0)] (fst (loop ds18b20 (1000, 0) boot))))))
     = READ_SENSOR"
  using poll_period [of boot ds18b20 "[(1750, 21.5), (1751, 0)]" 1000 0 2999 0]
        poll_period [of boot ds18b20 "[(1750, 21.5), (1751, 0)]" 1000 0 3000 0]
  by (simp add: boot_simps loop_def ds18b20_sentinel sensorDelayInterval_def
        sensorReadInterval_def Let_def updateTemperatureValues_def)

section \<open>The flags in reachable states\<close>

lemma pending_ok_boot: "pending_ok boot"
  by (simp add: pending_ok_def boot_simps)

lemma pending_ok_loop:
  assumes "pending_ok s"
  shows "pending_ok (fst (loop lib inp s))"
proof (cases inp)
  case (Pair now reading)
  show ?thesis
  proof (cases "currentState s")
    case READ_SENSOR
    then show ?thesis
      using assms by (simp add: Pair loop_READ_SENSOR pending_ok_def)
  next
    case WAIT
    then have idle: "\<not> valueChanged s"
      using assms by (auto simp add: pending_ok_def)
    show ?thesis
    proof (cases "750 \<le> now - previousMillis s")
      case True
      show ?thesis
        using idle by (simp add: Pair loop_WAIT_due [OF WAIT True] pending_ok_def)
    next
      case False
      show ?thesis
        using assms by (simp add: Pair loop_WAIT_early [OF WAIT False])
    qed
  next
    case UPDATE_DISPLAY
    show ?thesis
      using assms
      by (auto simp add: Pair loop_UPDATE_DISPLAY [OF UPDATE_DISPLAY] pending_ok_def)
  qed
qed

lemma pending_ok_run:
  "pending_ok s \<Longrightarrow> pending_ok (fst (run lib ins s))"
proof (induction ins arbitrary: s)
  case Nil
  then show ?case by simp
next
  case (Cons i ins)
  from Cons.IH [OF pending_ok_loop [OF Cons.prems, of lib i]]
  show ?case by (simp add: split_beta)
qed

lemma WAIT_idle:
  assumes "s = fst (run lib ins boot)" and "currentState s = WAIT"
  shows "\<not> valueChanged s"
  using pending_ok_run [OF pending_ok_boot, of lib ins] assms
  by (auto simp add: pending_ok_def)

section \<open>Runs that stay in UPDATE\_DISPLAY\<close>

lemma run_append:
  "run lib (xs @ ys) s =
     (case run lib xs s of (s1, e1) \<Rightarrow>
        (case run lib ys s1 of (s2, e2) \<Rightarrow> (s2, e1 @ e2)))"
  by (induction xs arbitrary: s) (simp_all add: split_beta)

lemma phases_first: "currentState s \<in> set (phases lib ins s)"
  by (cases ins) simp_all

lemma quiet_UPDATE_DISPLAY:
  assumes "currentState s = UPDATE_DISPLAY"
      and "\<not> (valueChanged s \<and> sensorConnected s)"
      and "READ_SENSOR \<notin> set (phases lib later s)"
  shows "snd (run lib (later @ [nxt]) s) = [] \<and>
         previousTemperatureC (fst (run lib (later @ [nxt]) s)) = previousTemperatureC s"
  using assms
proof (induction later arbitrary: s)
  case Nil
  then show ?case
    by (cases nxt) (auto simp add: loop_UPDATE_DISPLAY split_beta)
next
  case (Cons i later)
  obtain now reading where i: "i = (now, reading)"
    by (cases i)
  let ?s' = "fst (loop lib i s)"
  have rest: "READ_SENSOR \<notin> set (phases lib later ?s')"
    using Cons.prems(3) by simp
  then have "currentState ?s' \<noteq> READ_SENSOR"
    using phases_first [of ?s' lib later] by auto
  then have phase: "currentState ?s' = UPDATE_DISPLAY"
    using Cons.prems(1) by (simp add: i loop_UPDATE_DISPLAY split: if_splits)
  have flags: "\<not> (valueChanged ?s' \<and> sensorConnected ?s')"
    using Cons.prems(1,2) by (simp add: i loop_UPDATE_DISPLAY)
  have "snd (loop lib i s) = []" and "previousTemperatureC ?s' = previousTemperatureC s"
    using Cons.prems(1,2) by (auto simp add: i loop_UPDATE_DISPLAY)
  then show ?case
    using Cons.IH [OF phase flags rest] by (simp add: split_beta)
qed

lemma after_first_UPDATE_DISPLAY:
  assumes "currentState s = UPDATE_DISPLAY"
  shows "\<not> (valueChanged (fst (loop lib first s)) \<and> sensorConnected (fst (loop lib first s)))"
  using assms by (cases first) (auto simp add: loop_UPDATE_DISPLAY)

section \<open>Connection changes\<close>

text \<open>
  C5. For every state and every tick: if the tick is in WAIT, the conversion wait is over
  and the validity of the value read differs from \<open>sensorConnected\<close>, then the flag is
  inverted and the tick issues, after the sensor read, the static layout exactly once
  (one \<open>FillScreen\<close>), followed by the error row exactly when the sensor is now
  disconnected. Every other tick leaves the flag as it is and draws neither the static
  layout nor the error row.
\<close>

theorem connection_change:
  "let s' = fst (loop lib (now, reading) s);
       ev = snd (loop lib (now, reading) s)
   in if currentState s = WAIT \<and> 750 \<le> now - previousMillis s
         \<and> (reading \<noteq> DEVICE_DISCONNECTED_C lib) \<noteq> sensorConnected s
      then sensorConnected s' = (\<not> sensorConnected s) \<and>
           ev = GetTempCByIndex 0 # drawStaticScreen s'
                  @ (if sensorConnected s' then [] else showSensorError) \<and>
           count_list ev (FillScreen TFT_BLACK) = 1 \<and>
           (Println (CHR 0x0A # ''!! Sensor Not Connected !!'') \<in> set ev) = sensorConnected s
      else sensorConnected s' = sensorConnected s \<and>
           FillScreen TFT_BLACK \<notin> set ev \<and>
           Println (CHR 0x0A # ''!! Sensor Not Connected !!'') \<notin> set ev"
proof (cases "currentState s")
  case READ_SENSOR
  then show ?thesis by (simp add: loop_READ_SENSOR)
next
  case WAIT
  show ?thesis
  proof (cases "750 \<le> now - previousMillis s")
    case True
    show ?thesis
      unfolding Let_def loop_WAIT_due [OF WAIT True]
      by (auto simp add: WAIT True drawStaticScreen_def showSensorError_def)
  next
    case False
    then show ?thesis by (simp add: loop_WAIT_early [OF WAIT False])
  qed
next
  case UPDATE_DISPLAY
  then show ?thesis
    by (simp add: loop_UPDATE_DISPLAY updateTemperatureValues_def)
qed

text \<open>
  From boot, a first read of the sentinel draws the layout without labels and the error
  row; in the next cycle a read of 21.5 draws the layout with the labels and no error row.
\<close>

theorem connection_change_witness:
  "snd (loop ds18b20 (750, - 127) (fst (run ds18b20 [(0, 0)] boot))) =
     [GetTempCByIndex 0,
      FillScreen TFT_BLACK, SetCursor 0 0, SetTextColor TFT_WHITE TFT_BLACK,
      Println ''---------------------------'',
      Println '' DS18B20 Sensor Module'',
      Println ''---------------------------'',
      SetTextColor TFT_WHITE TFT_BLACK, SetCursor 0 85,
      Println (CHR 0x0A # ''!! Sensor Not Connected !!'')] \<and>
   snd (loop ds18b20 (2751, 21.5)
      (fst (run ds18b20 [(0, 0), (750, - 127), (2000, 0), (2001, 0)] boot))) =
     [GetTempCByIndex 0,
      FillScreen TFT_BLACK, SetCursor 0 0, SetTextColor TFT_WHITE TFT_BLACK,
      Println ''---------------------------'',
      Println '' DS18B20 Sensor Module'',
      Println ''---------------------------'',
      Println (CHR 0x0A # ''Temp in Celcius:''),
      Println (CHR 0x0A # CHR 0x0A # ''Temp in Fahrenheit:'')]"
  using connection_change [where lib = ds18b20 and now = 750 and reading = "- 127"
          and s = "fst (run ds18b20 [(0, 0)] boot)"]
        connection_change [where lib = ds18b20 and now = 2751 and reading = "21.5"
          and s = "fst (run ds18b20 [(0, 0), (750, - 127), (2000, 0), (2001, 0)] boot)"]
  by (simp add: concrete)

section \<open>Fahrenheit on every read\<close>

text \<open>
  C9. Whenever a tick reads the sensor, the value read is stored in \<open>temperatureC\<close> and
  its image under \<open>toFahrenheit\<close> in \<open>temperatureF\<close>, whatever the value is; validity
  is decided from the stored Celsius value afterwards. When the value read is the
  disconnect sentinel, \<open>temperatureF\<close> holds the Fahrenheit image of the sentinel and
  the sensor is flagged disconnected.
\<close>

theorem fahrenheit_on_read:
  assumes "GetTempCByIndex 0 \<in> set (snd (loop lib (now, reading) s))"
  shows "temperatureC (fst (loop lib (now, reading) s)) = reading \<and>
         temperatureF (fst (loop lib (now, reading) s)) = toFahrenheit lib reading \<and>
         sensorConnected (fst (loop lib (now, reading) s))
           = (reading \<noteq> DEVICE_DISCONNECTED_C lib) \<and>
         (reading = DEVICE_DISCONNECTED_C lib \<longrightarrow>
            temperatureF (fst (loop lib (now, reading) s))
              = toFahrenheit lib (DEVICE_DISCONNECTED_C lib) \<and>
            \<not> sensorConnected (fst (loop lib (now, reading) s)))"
proof -
  have "currentState s = WAIT" and "750 \<le> now - previousMillis s"
    using assms by (simp_all add: loop_WAIT_reads)
  then show ?thesis by (simp add: loop_WAIT_due)
qed

text \<open>
  With the library's conversion, a read of the sentinel -127 stores -12884377/65536,
  which is -196.59999084...
\<close>

theorem fahrenheit_on_read_witness:
  "GetTempCByIndex 0 \<in>
     set (snd (loop ds18b20 (750, - 127) (fst (run ds18b20 [(0, 0)] boot)))) \<and>
   temperatureF (fst (loop ds18b20 (750, - 127) (fst (run ds18b20 [(0, 0)] boot)))) = - (12884377 / 65536) \<and>
   \<not> sensorConnected (fst (loop ds18b20 (750, - 127) (fst (run ds18b20 [(0, 0)] boot))))"
  using fahrenheit_on_read [where now = 750 and reading = "- 127" and lib = ds18b20
          and s = "fst (run ds18b20 [(0, 0)] boot)"]
  by (simp add: concrete)

section \<open>The stored Fahrenheit value\<close>

text \<open>The error of one rounding, and of the conversion as the library evaluates it.\<close>

lemma round_even_error: "\<bar>of_int (round_even y) - y\<bar> \<le> 1 / 2"
proof -
  have "of_int \<lfloor>y\<rfloor> \<le> y" and "y < of_int \<lfloor>y\<rfloor> + 1"
    by linarith+
  then show ?thesis
    by (auto simp add: round_even_def Let_def)
qed

lemma float32_error: "\<bar>float32 x - x\<bar> \<le> 2 powi ulp_exponent x / 2"
proof -
  let ?u = "2 powi ulp_exponent x :: real"
  have pos: "0 < ?u" by simp
  have "float32 x - x = (of_int (round_even (x / ?u)) - x / ?u) * ?u"
    using pos by (simp add: float32_def field_simps)
  then have "\<bar>float32 x - x\<bar> = \<bar>of_int (round_even (x / ?u)) - x / ?u\<bar> * ?u"
    using pos by (simp add: abs_mult)
  also have "\<dots> \<le> 1 / 2 * ?u"
    using round_even_error [of "x / ?u"] pos by (intro mult_right_mono) simp_all
  finally show ?thesis by simp
qed

lemma ulp_exponent_le:
  assumes "\<bar>x\<bar> < 2 ^ k"
  shows "ulp_exponent x \<le> int k - 24"
proof -
  have "\<bar>x\<bar> * 2 ^ 149 < 2 ^ (k + 149)"
    using assms by (simp add: power_add)
  then have "\<lfloor>\<bar>x\<bar> * 2 ^ 149\<rfloor> < 2 ^ (k + 149)"
    by (simp add: floor_less_iff)
  then have "bitlen \<lfloor>\<bar>x\<bar> * 2 ^ 149\<rfloor> \<le> int (k + 149)"
    by (simp add: bitlen_le_iff_power nat_add_distrib)
  then show ?thesis
    by (simp add: ulp_exponent_def)
qed

lemma float32_within:
  assumes "\<bar>x\<bar> < 2 ^ k"
  shows "\<bar>float32 x - x\<bar> \<le> 2 powi (int k - 25)"
proof -
  have "(2 :: real) powi ulp_exponent x \<le> 2 powi (int k - 24)"
    using ulp_exponent_le [OF assms] by (intro power_int_increasing) simp_all
  then have "(2 :: real) powi ulp_exponent x / 2 \<le> 2 powi (int k - 24) / 2"
    by simp
  also have "\<dots> = 2 powi (int k - 25)"
    by (simp add: power_int_diff)
  finally show ?thesis
    using float32_error [of x] by linarith
qed

lemma toFahrenheit32_error:
  assumes "- 127 \<le> celsius" and "celsius \<le> 125"
  shows "\<bar>toFahrenheit32 celsius - (celsius * 9 / 5 + 32)\<bar> < 3 / 100000"
proof -
  define p where "p = celsius * (7549747 / 4194304)"
  define s where "s = float32 p + 32"
  have stored: "toFahrenheit32 celsius = float32 s"
    unfolding toFahrenheit32_def s_def p_def by (simp only: float32_1_8)
  have c: "\<bar>celsius\<bar> \<le> 127"
    using assms by simp
  have "p - celsius * 9 / 5 = celsius * (7549747 / 4194304 - 9 / 5)"
    unfolding p_def by (simp only: algebra_simps)
  then have "\<bar>p - celsius * 9 / 5\<bar> = \<bar>celsius\<bar> * (1 / 20971520)"
    by (simp add: abs_mult)
  then have coeff: "\<bar>p - celsius * 9 / 5\<bar> \<le> 127 / 20971520"
    using c by simp
  have "\<bar>p\<bar> = \<bar>celsius\<bar> * (7549747 / 4194304)"
    unfolding p_def by (simp add: abs_mult)
  then have p: "\<bar>p\<bar> < 2 ^ 8"
    using c by simp
  have product: "\<bar>float32 p - p\<bar> \<le> 1 / 131072"
    using float32_within [OF p] by (simp add: power_int_minus_divide)
  have "\<bar>s\<bar> \<le> \<bar>float32 p - p\<bar> + \<bar>p\<bar> + 32"
    unfolding s_def by linarith
  then have s: "\<bar>s\<bar> < 2 ^ 9"
    using product p by simp
  have sum: "\<bar>float32 s - s\<bar> \<le> 1 / 65536"
    using float32_within [OF s] by (simp add: power_int_minus_divide)
  have "\<bar>float32 s - (celsius * 9 / 5 + 32)\<bar>
      \<le> \<bar>float32 s - s\<bar> + \<bar>float32 p - p\<bar> + \<bar>p - celsius * 9 / 5\<bar>"
    unfolding s_def by linarith
  also have "\<dots> \<le> 1 / 65536 + 1 / 131072 + 127 / 20971520"
    using sum product coeff by linarith
  also have "\<dots> < 3 / 100000"
    by simp
  finally show ?thesis
    by (simp only: stored)
qed

text \<open>
  C8, as claimed, fails: a read of 21.5 stores 4633395/65536, which is 70.69999694...,
  in \<open>temperatureF\<close>, and not 21.5 * 9/5 + 32 = 70.7, which no binary float equals.
\<close>

theorem fahrenheit_exact_counterexample:
  "GetTempCByIndex 0 \<in>
     set (snd (loop ds18b20 (750, 21.5) (fst (run ds18b20 [(0, 0)] boot)))) \<and>
   temperatureF (fst (loop ds18b20 (750, 21.5) (fst (run ds18b20 [(0, 0)] boot))))
     = 4633395 / 65536 \<and>
   temperatureF (fst (loop ds18b20 (750, 21.5) (fst (run ds18b20 [(0, 0)] boot))))
     \<noteq> 21.5 * 9 / 5 + 32"
  by (simp add: concrete)

text \<open>
  C8, amended. With the library's conversion, whenever a tick reads a Celsius value
  between -127 and 125, which covers the sensor's range from -55 to 125 and the
  sentinel, the value stored in \<open>temperatureF\<close> is the single-precision value of
  \<^verbatim>\<open>(celsius * 1.8f) + 32.0f\<close>, and it differs from celsius * 9/5 + 32 by less than
  0.00003.
\<close>

theorem fahrenheit_rounded:
  assumes "GetTempCByIndex 0 \<in> set (snd (loop ds18b20 (now, reading) s))"
      and "- 127 \<le> reading" and "reading \<le> 125"
  shows "temperatureF (fst (loop ds18b20 (now, reading) s))
           = float32 (float32 (reading * float32 1.8) + 32) \<and>
         \<bar>temperatureF (fst (loop ds18b20 (now, reading) s)) - (reading * 9 / 5 + 32)\<bar>
           < 3 / 100000"
proof -
  have "currentState s = WAIT" and "750 \<le> now - previousMillis s"
    using assms(1) by (simp_all add: loop_WAIT_reads)
  then have "temperatureF (fst (loop ds18b20 (now, reading) s)) = toFahrenheit32 reading"
    by (simp add: loop_WAIT_due ds18b20_toFahrenheit)
  then show ?thesis
    using toFahrenheit32_error [OF assms(2,3)] by (simp add: toFahrenheit32_def)
qed

text \<open>
  A read of 21.5 stores 4633395/65536, less than 0.00003 below 70.7; a read of 21.5625
  stores 70.8125, which is exact.
\<close>

theorem fahrenheit_rounded_witness:
  "temperatureF (fst (loop ds18b20 (750, 21.5) (fst (run ds18b20 [(0, 0)] boot))))
     = 4633395 / 65536 \<and>
   \<bar>4633395 / 65536 - (21.5 * 9 / 5 + 32)\<bar> < (3 / 100000 :: real) \<and>
   temperatureF (fst (loop ds18b20 (750, 21.5625) (fst (run ds18b20 [(0, 0)] boot))))
     = 21.5625 * 9 / 5 + 32"
  using fahrenheit_rounded [where now = 750 and reading = "21.5"
          and s = "fst (run ds18b20 [(0, 0)] boot)"]
        fahrenheit_rounded [where now = 750 and reading = "21.5625"
          and s = "fst (run ds18b20 [(0, 0)] boot)"]
  by (simp add: concrete)

section \<open>Value updates\<close>

text \<open>
  C4. Take any state reached from boot that is in WAIT with the conversion wait over, the
  tick that reads the sensor there, and the tick after it. The reading tick paints no
  value row. If the reading is valid (so that the sensor is flagged connected) and
  differs from \<open>previousTemperatureC\<close> by at least 0.1, the second tick issues exactly
  the two value rows, showing the reading and its Fahrenheit image, and afterwards
  \<open>previousTemperatureC\<close>, \<open>temperatureC\<close> and \<open>temperatureF\<close> hold the values of
  the reading. Otherwise the second tick issues nothing and \<open>previousTemperatureC\<close> is
  unchanged. The static layout of a reconnecting commit belongs to the reading tick.
\<close>

theorem value_update:
  assumes "s = fst (run lib ins boot)"
      and "currentState s = WAIT"
      and "750 \<le> now - previousMillis s"
  shows "let s1 = fst (loop lib (now, reading) s);
             s2 = fst (loop lib nxt s1)
         in sensorConnected s1 = (reading \<noteq> DEVICE_DISCONNECTED_C lib) \<and>
            filter value_row (snd (loop lib (now, reading) s)) = [] \<and>
            (if sensorConnected s1 \<and> 0.1 \<le> \<bar>reading - previousTemperatureC s\<bar>
             then snd (loop lib nxt s1) =
                    [SetTextColor TFT_WHITE TFT_BLACK,
                     SetCursor 0 85, PrintFloat reading '' C    '',
                     SetCursor 0 133, PrintFloat (toFahrenheit lib reading) '' F    ''] \<and>
                  previousTemperatureC s2 = reading \<and>
                  temperatureC s2 = reading \<and>
                  temperatureF s2 = toFahrenheit lib reading
             else snd (loop lib nxt s1) = [] \<and>
                  previousTemperatureC s2 = previousTemperatureC s)"
proof -
  obtain now' reading' where nxt: "nxt = (now', reading')"
    by (cases nxt)
  have idle: "\<not> valueChanged s"
    using assms(1,2) by (rule WAIT_idle)
  note first = loop_WAIT_due [OF assms(2,3), of lib reading]
  have second: "currentState (fst (loop lib (now, reading) s)) = UPDATE_DISPLAY"
    by (simp add: first)
  show ?thesis
    unfolding Let_def nxt loop_UPDATE_DISPLAY [OF second]
    using idle
    by (simp add: first drawStaticScreen_def showSensorError_def updateTemperatureValues_def
          CELSIUS_Y_def FAHRENHEIT_Y_def)
qed

text \<open>
  From boot, with the request at 0 and the read at 750: a reading of 21.5 is painted by
  the next tick, a reading of 0.0625 is not.
\<close>

theorem value_update_witness:
  "snd (loop ds18b20 (751, 0)
      (fst (loop ds18b20 (750, 21.5) (fst (run ds18b20 [(0, 0)] boot))))) =
     [SetTextColor TFT_WHITE TFT_BLACK,
      SetCursor 0 85, PrintFloat 21.5 '' C    '',
      SetCursor 0 133, PrintFloat (4633395 / 65536) '' F    ''] \<and>
   previousTemperatureC (fst (loop ds18b20 (751, 0)
      (fst (loop ds18b20 (750, 21.5) (fst (run ds18b20 [(0, 0)] boot)))))) = 21.5 \<and>
   snd (loop ds18b20 (751, 0)
      (fst (loop ds18b20 (750, 0.0625) (fst (run ds18b20 [(0, 0)] boot))))) = [] \<and>
   previousTemperatureC (fst (loop ds18b20 (751, 0)
      (fst (loop ds18b20 (750, 0.0625) (fst (run ds18b20 [(0, 0)] boot)))))) = 0"
  using value_update [where s = "fst (run ds18b20 [(0, 0)] boot)" and lib = ds18b20
          and ins = "[(0, 0)]" and now = 750 and reading = "21.5" and nxt = "(751, 0)"]
        value_update [where s = "fst (run ds18b20 [(0, 0)] boot)" and lib = ds18b20
          and ins = "[(0, 0)]" and now = 750 and reading = "0.0625" and nxt = "(751, 0)"]
  by (simp add: concrete)

section \<open>Repeated presentation\<close>

text \<open>
  C6, as claimed, fails: the readings 21.5625 and 21.625 are valid, consecutive and
  0.0625 apart, and the value rows are drawn for 21.625. The reference of the change test
  is the value drawn last, 21.5, not the previous reading.
\<close>

theorem consecutive_readings_counterexample:
  "\<bar>21.625 - 21.5625\<bar> < (0.1 :: real) \<and>
   (21.5625 :: real) \<noteq> DEVICE_DISCONNECTED_C ds18b20 \<and>
   (21.625 :: real) \<noteq> DEVICE_DISCONNECTED_C ds18b20 \<and>
   snd (run ds18b20
          [(0, 0), (750, 21.5), (751, 0), (2000, 0),
           (2001, 0), (2751, 21.5625), (2752, 0), (4001, 0),
           (4002, 0), (4752, 21.625), (4753, 0)]
          boot) =
     [RequestTemperatures, GetTempCByIndex 0,
      SetTextColor TFT_WHITE TFT_BLACK,
      SetCursor 0 85, PrintFloat 21.5 '' C    '',
      SetCursor 0 133, PrintFloat (4633395 / 65536) '' F    '',
      RequestTemperatures, GetTempCByIndex 0,
      RequestTemperatures, GetTempCByIndex 0,
      SetTextColor TFT_WHITE TFT_BLACK,
      SetCursor 0 85, PrintFloat 21.625 '' C    '',
      SetCursor 0 133, PrintFloat (4648141 / 65536) '' F    '']"
  by (simp add: concrete)

text \<open>
  C6, amended. In a commit of a run from boot, after the first tick in UPDATE\_DISPLAY
  every further tick up to the next request issues no library call at all. A reading
  that differs by less than 0.1 from \<open>previousTemperatureC\<close>, the value drawn last
  (0.0 before any), produces no value row in the whole commit.
\<close>

theorem presenter_idempotent:
  assumes "s = fst (run lib ins boot)"
      and "currentState s = WAIT"
      and "750 \<le> now - previousMillis s"
      and "READ_SENSOR \<notin> set (phases lib later
             (fst (loop lib first (fst (loop lib (now, reading) s)))))"
  shows "snd (run lib (later @ [nxt]) (fst (loop lib first (fst (loop lib (now, reading) s)))))
           = [] \<and>
         (\<bar>reading - previousTemperatureC s\<bar> < 0.1 \<longrightarrow>
            filter value_row (snd (run lib ((now, reading) # first # later @ [nxt]) s)) = [])"
proof -
  let ?s1 = "fst (loop lib (now, reading) s)"
  let ?s2 = "fst (loop lib first ?s1)"
  obtain now' reading' where first: "first = (now', reading')"
    by (cases first)
  have s1: "currentState ?s1 = UPDATE_DISPLAY"
    by (simp add: loop_WAIT_due [OF assms(2,3)])
  have "currentState ?s2 \<noteq> READ_SENSOR"
    using assms(4) phases_first [of ?s2 lib later] by auto
  then have s2: "currentState ?s2 = UPDATE_DISPLAY"
    using s1 by (simp add: first loop_UPDATE_DISPLAY split: if_splits)
  have quiet: "snd (run lib (later @ [nxt]) ?s2) = []"
    using quiet_UPDATE_DISPLAY [OF s2 after_first_UPDATE_DISPLAY [OF s1] assms(4)] by simp
  have idle: "\<not> valueChanged s"
    using assms(1,2) by (rule WAIT_idle)
  have "filter value_row (snd (run lib ((now, reading) # first # later @ [nxt]) s)) = []"
    if "\<bar>reading - previousTemperatureC s\<bar> < 0.1"
  proof -
    have "filter value_row (snd (loop lib (now, reading) s)) = []"
      by (simp add: loop_WAIT_due [OF assms(2,3)] drawStaticScreen_def showSensorError_def)
    moreover have "snd (loop lib first ?s1) = []"
      unfolding first loop_UPDATE_DISPLAY [OF s1]
      using that idle by (simp add: loop_WAIT_due [OF assms(2,3)])
    ultimately show ?thesis
      using quiet by (simp add: split_beta)
  qed
  with quiet show ?thesis by blast
qed

text \<open>
  After 21.5 has been drawn by the tick at 751, the ticks at 1000, 1500 and 2000 issue
  nothing; a first reading of 0.0625 draws no value row.
\<close>

theorem presenter_idempotent_witness:
  "snd (run ds18b20 [(1000, 0), (1500, 0), (2000, 0)]
      (fst (loop ds18b20 (751, 0)
         (fst (loop ds18b20 (750, 21.5) (fst (run ds18b20 [(0, 0)] boot))))))) = [] \<and>
   filter value_row
     (snd (run ds18b20 [(750, 0.0625), (751, 0), (1000, 0), (1500, 0), (2000, 0)]
        (fst (run ds18b20 [(0, 0)] boot)))) = []"
  using presenter_idempotent [where s = "fst (run ds18b20 [(0, 0)] boot)" and lib = ds18b20
          and ins = "[(0, 0)]" and now = 750 and reading = "21.5" and first = "(751, 0)"
          and later = "[(1000, 0), (1500, 0)]" and nxt = "(2000, 0)"]
        presenter_idempotent [where s = "fst (run ds18b20 [(0, 0)] boot)" and lib = ds18b20
          and ins = "[(0, 0)]" and now = 750 and reading = "0.0625" and first = "(751, 0)"
          and later = "[(1000, 0), (1500, 0)]" and nxt = "(2000, 0)"]
  by (simp add: concrete)

section \<open>The hysteresis reference\<close>

text \<open>
  C10. \<open>previousTemperatureC\<close> is 0 after \<^verbatim>\<open>setup()\<close>. In a state reached from boot,
  a tick that changes it is followed by a tick that paints the two value rows with the
  new reference. A valid reading that is less than 0.1 away from the reference leaves
  it unchanged, and up to the next request the commit issues only the sensor read,
  followed, when the sensor was flagged disconnected, by the static layout, which holds
  no value row: the value rows stay unpainted.
\<close>

theorem hysteresis_reference:
  assumes "s = fst (run lib ins boot)"
  shows "previousTemperatureC boot = 0 \<and>
         (previousTemperatureC (fst (loop lib inp s)) \<noteq> previousTemperatureC s \<longrightarrow>
            filter value_row (snd (loop lib nxt (fst (loop lib inp s)))) =
              [PrintFloat (previousTemperatureC (fst (loop lib inp s))) '' C    '',
               PrintFloat (temperatureF (fst (loop lib inp s))) '' F    '']) \<and>
         (currentState s = WAIT \<and> 750 \<le> now - previousMillis s \<and>
          reading \<noteq> DEVICE_DISCONNECTED_C lib \<and>
          \<bar>reading - previousTemperatureC s\<bar> < 0.1 \<and>
          READ_SENSOR \<notin> set (phases lib later (fst (loop lib (now, reading) s))) \<longrightarrow>
            previousTemperatureC (fst (run lib ((now, reading) # later @ [nxt]) s))
              = previousTemperatureC s \<and>
            snd (run lib ((now, reading) # later @ [nxt]) s) =
              GetTempCByIndex 0 #
                (if sensorConnected s then []
                 else drawStaticScreen (fst (loop lib (now, reading) s))) \<and>
            filter value_row
              (GetTempCByIndex 0 # drawStaticScreen (fst (loop lib (now, reading) s))) = [])"
proof -
  have ok: "pending_ok s"
    unfolding assms by (rule pending_ok_run [OF pending_ok_boot])
  have start: "previousTemperatureC boot = 0"
    by (simp add: boot_simps)
  have update: "filter value_row (snd (loop lib nxt (fst (loop lib inp s)))) =
      [PrintFloat (previousTemperatureC (fst (loop lib inp s))) '' C    '',
       PrintFloat (temperatureF (fst (loop lib inp s))) '' F    '']"
    if changed: "previousTemperatureC (fst (loop lib inp s)) \<noteq> previousTemperatureC s"
  proof -
    obtain t r where inp: "inp = (t, r)" by (cases inp)
    obtain t' r' where nxt: "nxt = (t', r')" by (cases nxt)
    have wait: "currentState s = WAIT"
      using changed
      by (cases "currentState s") (simp_all add: inp loop_READ_SENSOR loop_UPDATE_DISPLAY)
    have due: "750 \<le> t - previousMillis s"
    proof (rule ccontr)
      assume "\<not> 750 \<le> t - previousMillis s"
      with wait have "loop lib (t, r) s = (s, [])"
        by (rule loop_WAIT_early)
      with changed show False by (simp add: inp)
    qed
    note tick = loop_WAIT_due [OF wait due, of lib r]
    have "currentState (fst (loop lib inp s)) = UPDATE_DISPLAY"
      by (simp add: inp tick)
    from loop_UPDATE_DISPLAY [OF this, of lib t' r'] changed
    show ?thesis
      by (simp add: nxt inp tick updateTemperatureValues_def split: if_splits)
  qed
  have within: "previousTemperatureC (fst (run lib ((now, reading) # later @ [nxt]) s))
        = previousTemperatureC s \<and>
      snd (run lib ((now, reading) # later @ [nxt]) s) =
        GetTempCByIndex 0 #
          (if sensorConnected s then []
           else drawStaticScreen (fst (loop lib (now, reading) s))) \<and>
      filter value_row
        (GetTempCByIndex 0 # drawStaticScreen (fst (loop lib (now, reading) s))) = []"
    if wait: "currentState s = WAIT" and due: "750 \<le> now - previousMillis s"
      and valid: "reading \<noteq> DEVICE_DISCONNECTED_C lib"
      and near: "\<bar>reading - previousTemperatureC s\<bar> < 0.1"
      and cycle: "READ_SENSOR \<notin> set (phases lib later (fst (loop lib (now, reading) s)))"
  proof -
    let ?s1 = "fst (loop lib (now, reading) s)"
    note tick = loop_WAIT_due [OF wait due, of lib reading]
    have idle: "\<not> valueChanged s"
      using ok wait by (auto simp add: pending_ok_def)
    have s1: "currentState ?s1 = UPDATE_DISPLAY" "\<not> (valueChanged ?s1 \<and> sensorConnected ?s1)"
      "previousTemperatureC ?s1 = previousTemperatureC s"
      using idle near by (simp_all add: tick)
    have quiet: "snd (run lib (later @ [nxt]) ?s1) = []"
      and keep: "previousTemperatureC (fst (run lib (later @ [nxt]) ?s1))
        = previousTemperatureC ?s1"
      using quiet_UPDATE_DISPLAY [OF s1(1,2) cycle] by simp_all
    show ?thesis
      using quiet keep s1(3) valid
      by (simp add: split_beta tick drawStaticScreen_def)
  qed
  from start update within show ?thesis by blast
qed

text \<open>
  A first reading of 21.5 moves the reference and is painted. A first reading of 0.0625
  issues only the sensor read. After a disconnect, a reading of 0.0625 repaints the static
  layout with its labels and no value.
\<close>

theorem hysteresis_reference_witness:
  "previousTemperatureC (fst (loop ds18b20 (750, 21.5) (fst (run ds18b20 [(0, 0)] boot)))) = 21.5 \<and>
   filter value_row (snd (loop ds18b20 (751, 0)
      (fst (loop ds18b20 (750, 21.5) (fst (run ds18b20 [(0, 0)] boot)))))) =
     [PrintFloat 21.5 '' C    '', PrintFloat (4633395 / 65536) '' F    ''] \<and>
   snd (run ds18b20 [(750, 0.0625), (1000, 0), (2000, 0)] (fst (run ds18b20 [(0, 0)] boot))) =
     [GetTempCByIndex 0] \<and>
   snd (run ds18b20 [(2751, 0.0625), (3000, 0), (4001, 0)]
      (fst (run ds18b20 [(0, 0), (750, - 127), (2000, 0), (2001, 0)] boot))) =
     [GetTempCByIndex 0,
      FillScreen TFT_BLACK, SetCursor 0 0, SetTextColor TFT_WHITE TFT_BLACK,
      Println ''---------------------------'',
      Println '' DS18B20 Sensor Module'',
      Println ''---------------------------'',
      Println (CHR 0x0A # ''Temp in Celcius:''),
      Println (CHR 0x0A # CHR 0x0A # ''Temp in Fahrenheit:'')]"
  using hysteresis_reference
          [where s = "fst (run ds18b20 [(0, 0)] boot)" and lib = ds18b20 and ins = "[(0, 0)]"
             and inp = "(750, 21.5)" and nxt = "(751, 0)" and now = 750 and reading = "0.0625"
             and later = "[(1000, 0)]"]
        hysteresis_reference
          [where s = "fst (run ds18b20 [(0, 0), (750, - 127), (2000, 0), (2001, 0)] boot)"
             and lib = ds18b20 and ins = "[(0, 0), (750, - 127), (2000, 0), (2001, 0)]"
             and inp = "(2751, 21.5)" and nxt = "(4001, 0)" and now = 2751
             and reading = "0.0625" and later = "[(3000, 0)]"]
  by (simp add: concrete)

section \<open>The first commit after startup\<close>

text \<open>
  C7, as claimed, fails: from boot, with a first reading of 21.5, which is valid as the
  connected flag says, the first cycle issues the request, the read and the two value rows,
  and no static layout.
\<close>

theorem first_commit_counterexample:
  "sensorConnected boot \<and>
   (21.5 :: real) \<noteq> DEVICE_DISCONNECTED_C ds18b20 \<and>
   snd (run ds18b20 [(0, 0), (750, 21.5), (751, 0), (2000, 0)] boot) =
     [RequestTemperatures, GetTempCByIndex 0,
      SetTextColor TFT_WHITE TFT_BLACK,
      SetCursor 0 85, PrintFloat 21.5 '' C    '',
      SetCursor 0 133, PrintFloat (4633395 / 65536) '' F    ''] \<and>
   FillScreen TFT_BLACK \<notin> set (snd (run ds18b20 [(0, 0), (750, 21.5), (751, 0), (2000, 0)] boot))"
  by (simp add: concrete)

text \<open>
  C7, amended. \<^verbatim>\<open>setup()\<close> ends with the static layout of the connected state and
  clears \<open>firstRun\<close>. The first cycle after it, from the request to the last tick
  before the next request, issues the request, the sensor read and then: the static
  layout without labels and the error row if the first reading is the sentinel; the two
  value rows if it is valid and at least 0.1 away from 0; nothing otherwise. \<open>loop\<close>
  never reads \<open>firstRun\<close>.
\<close>

theorem first_commit:
  assumes "\<forall>(t', r') \<in> set early. \<not> 750 \<le> t' - t0"
      and "750 \<le> t - t0"
      and "READ_SENSOR \<notin> set (phases lib later
             (fst (loop lib first (fst (loop lib (t, r) (fst (loop lib (t0, r0) boot)))))))"
  shows "snd (setup' initial) =
           [TftInit, SetRotation 0, FillScreen TFT_BLACK, SetTextFont 2,
            SetTextColor TFT_WHITE TFT_BLACK, Println (''Initialising...'' @ [CHR 0x0A]),
            Delay 1000, SensorsBegin, SetResolution 12] @ drawStaticScreen boot \<and>
         sensorConnected boot \<and> \<not> firstRun boot \<and>
         snd (run lib ((t0, r0) # early @ (t, r) # first # later @ [nxt]) boot) =
           [RequestTemperatures, GetTempCByIndex 0] @
           (if r = DEVICE_DISCONNECTED_C lib
            then drawStaticScreen (boot\<lparr>sensorConnected := False\<rparr>) @ showSensorError
            else if 0.1 \<le> \<bar>r\<bar>
            then [SetTextColor TFT_WHITE TFT_BLACK,
                  SetCursor 0 85, PrintFloat r '' C    '',
                  SetCursor 0 133, PrintFloat (toFahrenheit lib r) '' F    '']
            else []) \<and>
         loop lib inp (s\<lparr>firstRun := b\<rparr>) =
           ((fst (loop lib inp s))\<lparr>firstRun := b\<rparr>, snd (loop lib inp s))"
proof -
  let ?s1 = "fst (loop lib (t0, r0) boot)"
  let ?s2 = "fst (loop lib (t, r) ?s1)"
  let ?s3 = "fst (loop lib first ?s2)"
  obtain now' reading' where first: "first = (now', reading')"
    by (cases first)
  have painted: "snd (setup' initial) =
      [TftInit, SetRotation 0, FillScreen TFT_BLACK, SetTextFont 2,
       SetTextColor TFT_WHITE TFT_BLACK, Println (''Initialising...'' @ [CHR 0x0A]),
       Delay 1000, SensorsBegin, SetResolution 12] @ drawStaticScreen boot"
    by (simp add: setup'_def boot_def drawStaticScreen_def)
  have request: "loop lib (t0, r0) boot =
      (boot\<lparr>currentState := WAIT, previousMillis := t0\<rparr>, [RequestTemperatures])"
    by (simp add: loop_READ_SENSOR boot_simps)
  have s1: "currentState ?s1 = WAIT" "previousMillis ?s1 = t0"
    "sensorConnected ?s1" "previousTemperatureC ?s1 = 0" "\<not> valueChanged ?s1"
    unfolding request by (simp_all add: boot_simps)
  have "\<forall>(now, reading) \<in> set early. \<not> 750 \<le> now - previousMillis ?s1"
    using assms(1) by (simp add: s1(2))
  with s1(1) have waiting: "run lib early ?s1 = (?s1, [])"
    by (rule run_early)
  have due: "750 \<le> t - previousMillis ?s1"
    using assms(2) by (simp add: s1(2))
  note read = loop_WAIT_due [OF s1(1) due, of lib r]
  have s2: "currentState ?s2 = UPDATE_DISPLAY"
    by (simp add: read)
  note present = loop_UPDATE_DISPLAY [OF s2, of lib now' reading']
  have "currentState ?s3 \<noteq> READ_SENSOR"
    using assms(3) phases_first [of ?s3 lib later] by auto
  then have s3: "currentState ?s3 = UPDATE_DISPLAY"
    using s2 by (simp add: first loop_UPDATE_DISPLAY split: if_splits)
  have quiet: "snd (run lib (later @ [nxt]) ?s3) = []"
    using quiet_UPDATE_DISPLAY [OF s3 after_first_UPDATE_DISPLAY [OF s2] assms(3)] by simp
  have "snd (run lib ((t0, r0) # early @ (t, r) # first # later @ [nxt]) boot) =
      snd (loop lib (t0, r0) boot) @ snd (loop lib (t, r) ?s1) @ snd (loop lib first ?s2)"
    using waiting quiet by (simp add: run_append split_beta)
  also have "snd (loop lib (t0, r0) boot) = [RequestTemperatures]"
    by (simp add: request)
  also have "snd (loop lib (t, r) ?s1) =
      GetTempCByIndex 0 #
        (if r = DEVICE_DISCONNECTED_C lib
         then drawStaticScreen (boot\<lparr>sensorConnected := False\<rparr>) @ showSensorError
         else [])"
    unfolding read by (simp add: s1 drawStaticScreen_def)
  also have "snd (loop lib first ?s2) =
      (if r \<noteq> DEVICE_DISCONNECTED_C lib \<and> 0.1 \<le> \<bar>r\<bar>
       then [SetTextColor TFT_WHITE TFT_BLACK,
             SetCursor 0 85, PrintFloat r '' C    '',
             SetCursor 0 133, PrintFloat (toFahrenheit lib r) '' F    '']
       else [])"
  proof -
    have "valueChanged ?s2 = (r \<noteq> DEVICE_DISCONNECTED_C lib \<and> 0.1 \<le> \<bar>r\<bar>)"
      and "sensorConnected ?s2 = (r \<noteq> DEVICE_DISCONNECTED_C lib)"
      and "temperatureC ?s2 = r" and "temperatureF ?s2 = toFahrenheit lib r"
      unfolding read by (simp_all add: s1)
    then show ?thesis
      unfolding first present
      by (simp add: updateTemperatureValues_def CELSIUS_Y_def FAHRENHEIT_Y_def)
  qed
  finally have cycle:
    "snd (run lib ((t0, r0) # early @ (t, r) # first # later @ [nxt]) boot) =
       [RequestTemperatures, GetTempCByIndex 0] @
       (if r = DEVICE_DISCONNECTED_C lib
        then drawStaticScreen (boot\<lparr>sensorConnected := False\<rparr>) @ showSensorError
        else if 0.1 \<le> \<bar>r\<bar>
        then [SetTextColor TFT_WHITE TFT_BLACK,
              SetCursor 0 85, PrintFloat r '' C    '',
              SetCursor 0 133, PrintFloat (toFahrenheit lib r) '' F    '']
        else [])"
    by simp
  have unread: "loop lib inp (s\<lparr>firstRun := b\<rparr>) =
      ((fst (loop lib inp s))\<lparr>firstRun := b\<rparr>, snd (loop lib inp s))"
    by (cases inp; cases "currentState s")
       (simp_all add: loop_def Let_def split_beta drawStaticScreen_def
          updateTemperatureValues_def)
  show ?thesis
    using painted cycle unread by (simp add: boot_simps)
qed

text \<open>The first cycle with a first reading of 21.5, and with the sentinel.\<close>

theorem first_commit_witness:
  "snd (run ds18b20 [(0, 0), (100, 0), (750, 21.5), (751, 0), (1000, 0), (2000, 0)] boot) =
     [RequestTemperatures, GetTempCByIndex 0,
      SetTextColor TFT_WHITE TFT_BLACK,
      SetCursor 0 85, PrintFloat 21.5 '' C    '',
      SetCursor 0 133, PrintFloat (4633395 / 65536) '' F    ''] \<and>
   snd (run ds18b20 [(0, 0), (100, 0), (750, - 127), (751, 0), (1000, 0), (2000, 0)] boot) =
     [RequestTemperatures, GetTempCByIndex 0,
      FillScreen TFT_BLACK, SetCursor 0 0, SetTextColor TFT_WHITE TFT_BLACK,
      Println ''---------------------------'',
      Println '' DS18B20 Sensor Module'',
      Println ''---------------------------'',
      SetTextColor TFT_WHITE TFT_BLACK, SetCursor 0 85,
      Println (CHR 0x0A # ''!! Sensor Not Connected !!'')]"
  using first_commit [where lib = ds18b20 and t0 = 0 and ?r0.0 = 0 and early = "[(100, 0)]"
          and t = 750 and r = "21.5" and first = "(751, 0)" and later = "[(1000, 0)]"
          and nxt = "(2000, 0)"]
        first_commit [where lib = ds18b20 and t0 = 0 and ?r0.0 = 0 and early = "[(100, 0)]"
          and t = 750 and r = "- 127" and first = "(751, 0)" and later = "[(1000, 0)]"
          and nxt = "(2000, 0)"]
  by (simp add: concrete)

end
